theory Spec2Isabelle
  imports Complex_Main
begin

section \<open>Recipe search: the two versions of the App component\<close>

text \<open>
  The repository holds two versions of the single component \<open>App\<close>:
  \<^item> the JavaScript version (\<open>useState\<close> / \<open>useEffect\<close>, functions \<open>getRecipes\<close>,
    \<open>getSearch\<close>, \<open>updateSearch\<close>), modelled below with the suffix \<open>_js\<close> where a
    name is shared;
  \<^item> the TypeScript version (\<open>useQuery\<close>, functions \<open>fetchRecipes\<close>,
    \<open>handleSearchSubmit\<close>, \<open>handleSearchChange\<close>, \<open>handleKeyPress\<close>), with the
    detail modal.

  A component is modelled by its state (one record field per \<open>useState\<close> cell), one
  function per event handler returning the next state, and a render function from the
  state to an abstract view that keeps which branch of the markup is taken and which
  data it shows (styling and static text are left out). Network requests are effects:
  a handler's step returns the requests it starts, and the settlement of a request is
  an event of its own carrying what the network delivered.
\<close>

subsection \<open>JavaScript values\<close>

text \<open>
  A JavaScript number: a finite value, \<open>NaN\<close> or an infinity. Finite values are
  taken as reals (the two signed zeros are one value, and a finite quotient is exact).
\<close>

datatype jsnum = Fin real | NaN | PosInf | NegInf

text \<open>Truthiness of a number: \<open>0\<close> and \<open>NaN\<close> are falsy.\<close>

fun truthy :: "jsnum \<Rightarrow> bool" where
  "truthy (Fin x) = (x \<noteq> 0)"
| "truthy NaN = False"
| "truthy PosInf = True"
| "truthy NegInf = True"

text \<open>
  The operator \<open>/\<close>: a zero divisor gives \<open>NaN\<close> or an infinity (never an
  exception); the sign of the infinity is that of the dividend, as for the divisor \<open>+0\<close>.
\<close>

fun js_div :: "jsnum \<Rightarrow> jsnum \<Rightarrow> jsnum" where
  "js_div (Fin a) (Fin b) =
     (if b = 0 then (if a = 0 then NaN else if 0 < a then PosInf else NegInf)
      else Fin (a / b))"
| "js_div (Fin a) PosInf = Fin 0"
| "js_div (Fin a) NegInf = Fin 0"
| "js_div PosInf (Fin b) = (if 0 \<le> b then PosInf else NegInf)"
| "js_div NegInf (Fin b) = (if 0 \<le> b then NegInf else PosInf)"
| "js_div _ _ = NaN"

text \<open>\<open>Math.round\<close>: the nearest integer, a half rounded up.\<close>

fun Math_round :: "jsnum \<Rightarrow> jsnum" where
  "Math_round (Fin x) = Fin (of_int \<lfloor>x + 1 / 2\<rfloor>)"
| "Math_round n = n"

text \<open>An \<open>Error\<close> object: its constructor name and its message.\<close>

datatype js_error = JsError (name: string) (message: string)

subsection \<open>The records of the API response\<close>

datatype nutrient = Nutrient (nutrient_label: string) (quantity: jsnum) (unit: string)

text \<open>
  The fields of \<open>interface Recipe\<close> that the handlers and the per-serving figures
  read; an optional field (\<open>yield?\<close>, \<open>totalNutrients?\<close>) is \<open>None\<close> when the
  response leaves it out. \<open>totalNutrients\<close> is an object, kept as the list of its
  entries (one per key).
\<close>

record recipe =
  label :: string
  image_url :: string
  source :: string
  url :: string
  yield :: "jsnum option"
  calories :: jsnum
  totalNutrients :: "(string \<times> nutrient) list option"

datatype recipe_hit = Hit (recipe: recipe)

text \<open>
  What the network delivers for one \<open>fetch\<close>: the call rejects, or a response arrives
  with its \<open>ok\<close> flag and a body; \<open>response.json()\<close> rejects on a body that is not
  JSON and otherwise yields a document with its \<open>hits\<close> list
  (\<open>interface EdamamResponse\<close>).
\<close>

datatype json_body = BadJson js_error | Json (hits: "recipe_hit list")

datatype net_outcome = Rejects js_error | Responds (ok: bool) (body: json_body)

text \<open>The results area of a page: a grid of cards, or the "No recipes found" block.\<close>

datatype 'c results_view = Grid "'c list" | NoRecipesFound

subsection \<open>The JavaScript version\<close>

record query_holder =
  query :: string

record app_js = query_holder +
  recipes :: "recipe_hit list"
  search :: string

definition init_js :: app_js where
  "init_js = \<lparr>query = ''chicken'', recipes = [], search = ''''\<rparr>"


text \<open>
  \<open>getRecipes\<close> after its \<open>fetch\<close> has settled. There is no test of
  \<open>response.ok\<close> and no \<open>try\<close>: a rejection of \<open>fetch\<close> or of
  \<open>response.json()\<close> rejects the promise of \<open>getRecipes\<close> itself (\<open>Inl\<close>), which
  the effect drops, and the state stays as it was; otherwise \<open>setRecipes(data.hits)\<close>.
  The state it writes to is the current one, whatever query the call was started for.
\<close>

fun getRecipes_settled :: "net_outcome \<Rightarrow> app_js \<Rightarrow> js_error + app_js" where
  "getRecipes_settled (Rejects e) s = Inl e"
| "getRecipes_settled (Responds k (BadJson e)) s = Inl e"
| "getRecipes_settled (Responds k (Json hs)) s = Inr (s\<lparr>recipes := hs\<rparr>)"

definition getSearch :: "app_js \<Rightarrow> app_js" where
  "getSearch s = s\<lparr>query := search s, search := ''''\<rparr>"

definition updateSearch :: "string \<Rightarrow> app_js \<Rightarrow> app_js" where
  "updateSearch v s = s\<lparr>search := v\<rparr>"

text \<open>
  \<open>useEffect(() => { getRecipes() }, [query])\<close>: after a render the effect runs when
  \<open>query\<close> differs from its value at the previous render. The result lists the
  queries for which \<open>getRecipes\<close> is called.
\<close>

definition useEffect_query :: "app_js \<Rightarrow> app_js \<Rightarrow> string list" where
  "useEffect_query prev cur = (if query cur = query prev then [] else [query cur])"

text \<open>Submitting the form: the handler, then the effect of the render that follows.\<close>

definition submit_js :: "app_js \<Rightarrow> app_js \<times> string list" where
  "submit_js s = (let s' = getSearch s in (s', useEffect_query s s'))"

text \<open>The props of one \<open>Recipe\<close> element, and the page: \<open>recipes.map\<close> inside the grid.\<close>

datatype recipe_props = RecipeProps (title: string) (props_calories: jsnum) (props_image: string)

definition render_js :: "app_js \<Rightarrow> recipe_props results_view" where
  "render_js s =
     Grid (map (\<lambda>h. RecipeProps (label (recipe h)) (calories (recipe h)) (image_url (recipe h)))
            (recipes s))"

text \<open>
  The page with its requests in flight. \<open>Settle q out\<close> is the settlement of a fetch
  started for the query \<open>q\<close>; it is an event only while such a fetch is in flight.
  \<open>unhandled\<close> collects the rejections that nothing catches.
\<close>

datatype event_js = UpdateSearch string | SubmitForm | Settle string net_outcome

record world_js =
  app :: app_js
  inflight :: "string list"
  unhandled :: "js_error list"

text \<open>The mount: the first render, whose effect always runs.\<close>

definition mount_js :: world_js where
  "mount_js = \<lparr>app = init_js, inflight = [query init_js], unhandled = []\<rparr>"

fun step_js :: "world_js \<Rightarrow> event_js \<Rightarrow> world_js" where
  "step_js w (UpdateSearch v) =
     (let a = updateSearch v (app w)
      in w\<lparr>app := a, inflight := inflight w @ useEffect_query (app w) a\<rparr>)"
| "step_js w SubmitForm =
     (case submit_js (app w) of (a, qs) \<Rightarrow> w\<lparr>app := a, inflight := inflight w @ qs\<rparr>)"
| "step_js w (Settle q out) =
     (if q \<in> set (inflight w) then
        (case getRecipes_settled out (app w) of
           Inl e \<Rightarrow> w\<lparr>inflight := remove1 q (inflight w), unhandled := unhandled w @ [e]\<rparr>
         | Inr a \<Rightarrow> w\<lparr>app := a,
                      inflight := remove1 q (inflight w) @ useEffect_query (app w) a\<rparr>)
      else w)"

definition run_js :: "event_js list \<Rightarrow> world_js" where
  "run_js evs = foldl step_js mount_js evs"

subsection \<open>The TypeScript version: per-serving figures\<close>

text \<open>The divisor \<open>(recipe.yield || 4)\<close> of every per-serving figure.\<close>

definition yield_or_4 :: "recipe \<Rightarrow> jsnum" where
  "yield_or_4 r = (case yield r of None \<Rightarrow> Fin 4 | Some y \<Rightarrow> if truthy y then y else Fin 4)"

text \<open>
  \<open>Math.round(recipe.calories / (recipe.yield || 4))\<close>, the same expression on the
  card and in the modal.
\<close>

definition card_calories :: "recipe \<Rightarrow> jsnum" where
  "card_calories r = Math_round (js_div (calories r) (yield_or_4 r))"

definition modal_calories :: "recipe \<Rightarrow> jsnum" where
  "modal_calories r = Math_round (js_div (calories r) (yield_or_4 r))"

definition nutrient_keys :: "string list" where
  "nutrient_keys = [''ENERC_KCAL'', ''PROCNT'', ''FAT'', ''CHOCDF'', ''FIBTG'', ''NA'']"

text \<open>
  One cell of the nutrient grid: nothing when the nutrient is absent, otherwise
  \<open>Math.round(value.quantity / (selectedRecipe.yield || 4))\<close>.
\<close>

definition nutrient_cell :: "recipe \<Rightarrow> string \<Rightarrow> jsnum option" where
  "nutrient_cell r k =
     (case totalNutrients r of
        None \<Rightarrow> None
      | Some tn \<Rightarrow>
          (case map_of tn k of
             None \<Rightarrow> None
           | Some v \<Rightarrow> Some (Math_round (js_div (quantity v) (yield_or_4 r)))))"

definition nutrient_grid :: "recipe \<Rightarrow> (string \<times> jsnum) list" where
  "nutrient_grid r =
     List.map_filter (\<lambda>k. map_option (\<lambda>v. (k, v)) (nutrient_cell r k)) nutrient_keys"

subsection \<open>The TypeScript version: the query cache behind \<open>useQuery\<close>\<close>

text \<open>
  \<open>useQuery\<close> belongs to the library \<open>@tanstack/react-query\<close>, not to the
  repository. Its part in the component is modelled by its documented contract:
  \<^item> results are cached per query key; the component sees the entry of the key it
    passes at this render, here \<open>['recipes', query]\<close>;
  \<^item> an entry is fetched when the component first observes its key (always when it
    holds no data; when it holds data, if the client treats cached data as stale),
    unless a fetch for that key is already in flight;
  \<^item> a fetch that starts on an entry without data clears its error; a resolved fetch
    stores the data and clears the error; a rejected one is started again while the
    entry has failed fewer than \<open>retry\<close> times, and otherwise stores the error and
    keeps the data;
  \<^item> \<open>isLoading\<close> holds while the entry has neither data nor error and is being
    fetched.
  The options of the client are set outside the component and are parameters here.
  Refetching on window focus or reconnection and the eviction of unused entries
  are events from outside the component and are not modelled.
\<close>

type_synonym query_key = "string \<times> string"

record client_options =
  retry :: nat
  refetchStale :: bool

record query_state =
  data :: "recipe_hit list option"
  error :: "js_error option"
  fetching :: bool
  failureCount :: nat

type_synonym query_cache = "query_key \<Rightarrow> query_state option"

definition fetch_start :: "query_state \<Rightarrow> query_state" where
  "fetch_start e =
     e\<lparr>fetching := True, failureCount := 0,
       error := (if data e = None then None else error e)\<rparr>"

definition observe :: "client_options \<Rightarrow> query_key \<Rightarrow> query_cache \<Rightarrow> query_cache \<times> query_key list" where
  "observe opts k c =
     (case c k of
        None \<Rightarrow> (c(k \<mapsto> \<lparr>data = None, error = None, fetching = True, failureCount = 0\<rparr>), [k])
      | Some e \<Rightarrow>
          if fetching e then (c, [])
          else if data e = None \<or> refetchStale opts then (c(k \<mapsto> fetch_start e), [k])
          else (c, []))"

text \<open>
  The settlement of the query function for key \<open>k\<close> with \<open>r\<close>: \<open>Inl\<close> a rejection,
  \<open>Inr\<close> the data. It returns the keys fetched again.
\<close>

definition settle :: "client_options \<Rightarrow> query_key \<Rightarrow> js_error + recipe_hit list \<Rightarrow> query_cache
    \<Rightarrow> query_cache \<times> query_key list" where
  "settle opts k r c =
     (case c k of
        None \<Rightarrow> (c, [])
      | Some e \<Rightarrow>
          if \<not> fetching e then (c, [])
          else
            (case r of
               Inr hs \<Rightarrow>
                 (c(k \<mapsto> e\<lparr>data := Some hs, error := None, fetching := False,
                            failureCount := 0\<rparr>), [])
             | Inl err \<Rightarrow>
                 if failureCount e < retry opts
                 then (c(k \<mapsto> e\<lparr>failureCount := Suc (failureCount e)\<rparr>), [k])
                 else (c(k \<mapsto> e\<lparr>error := Some err, fetching := False,
                                 failureCount := Suc (failureCount e)\<rparr>), [])))"

subsection \<open>The TypeScript version: the component\<close>

record app_ts = query_holder +
  searchTerm :: string
  selectedRecipe :: "recipe option"
  cache :: query_cache

definition init_ts :: app_ts where
  "init_ts = \<lparr>query = ''chicken'', searchTerm = '''', selectedRecipe = None, cache = Map.empty\<rparr>"

definition queryKey :: "app_ts \<Rightarrow> query_key" where
  "queryKey s = (''recipes'', query s)"

definition fetchRecipes_url :: "query_key \<Rightarrow> string" where
  "fetchRecipes_url k = ''https://www.edamam.com/api/recipes/v2?type=public&q='' @ snd k"

text \<open>
  \<open>fetchRecipes\<close> after its \<open>fetch\<close> has settled: a rejection of \<open>fetch\<close> is its
  own rejection; a response that is not \<open>ok\<close> throws
  \<open>new Error('Network response was not ok')\<close> before the body is read; otherwise the
  body is parsed and \<open>data.hits\<close> returned.
\<close>

fun fetchRecipes :: "net_outcome \<Rightarrow> js_error + recipe_hit list" where
  "fetchRecipes (Rejects e) = Inl e"
| "fetchRecipes (Responds k b) =
     (if \<not> k then Inl (JsError ''Error'' ''Network response was not ok'')
      else (case b of BadJson e \<Rightarrow> Inl e | Json hs \<Rightarrow> Inr hs))"

definition handleSearchChange :: "string \<Rightarrow> app_ts \<Rightarrow> app_ts" where
  "handleSearchChange v s = s\<lparr>searchTerm := v\<rparr>"

definition handleSearchSubmit :: "app_ts \<Rightarrow> app_ts" where
  "handleSearchSubmit s = s\<lparr>query := searchTerm s, selectedRecipe := None\<rparr>"

definition handleKeyPress :: "string \<Rightarrow> app_ts \<Rightarrow> app_ts" where
  "handleKeyPress key s = (if key = ''Enter'' then handleSearchSubmit s else s)"

definition setSelectedRecipe :: "recipe option \<Rightarrow> app_ts \<Rightarrow> app_ts" where
  "setSelectedRecipe r s = s\<lparr>selectedRecipe := r\<rparr>"

text \<open>
  The render that follows a handler: \<open>useQuery\<close> is called with the key of the new
  state and observes it when it differs from the key of the previous render.
\<close>

definition useQuery_rerender :: "client_options \<Rightarrow> app_ts \<Rightarrow> app_ts \<Rightarrow> app_ts \<times> query_key list" where
  "useQuery_rerender opts prev cur =
     (if queryKey cur = queryKey prev then (cur, [])
      else (case observe opts (queryKey cur) (cache cur) of (c, ks) \<Rightarrow> (cur\<lparr>cache := c\<rparr>, ks)))"

definition mount_ts :: "client_options \<Rightarrow> app_ts \<times> query_key list" where
  "mount_ts opts =
     (case observe opts (queryKey init_ts) (cache init_ts) of (c, ks) \<Rightarrow> (init_ts\<lparr>cache := c\<rparr>, ks))"

text \<open>What \<open>useQuery\<close> returns to the component: \<open>data\<close>, \<open>isLoading\<close>, \<open>error\<close>.\<close>

definition useQuery_result :: "app_ts \<Rightarrow> recipe_hit list option \<times> bool \<times> js_error option" where
  "useQuery_result s =
     (case cache s (queryKey s) of
        None \<Rightarrow> (None, False, None)
      | Some e \<Rightarrow> (data e, data e = None \<and> error e = None \<and> fetching e, error e))"

datatype card = Card (card_recipe: recipe) (card_cal: jsnum)

datatype modal = Modal (modal_recipe: recipe) (modal_cal: jsnum) (modal_nutrients: "(string \<times> jsnum) list")

datatype view = LoadingView | ErrorView string | MainView "card results_view" "modal option"

definition render_card :: "recipe_hit \<Rightarrow> card" where
  "render_card h = Card (recipe h) (card_calories (recipe h))"

definition render_modal :: "recipe \<Rightarrow> modal" where
  "render_modal r = Modal r (modal_calories r) (nutrient_grid r)"

text \<open>
  The three returns of \<open>App\<close>, in the order of the source: the loading page, the
  error page, then the main page with \<open>recipes && recipes.length > 0 ? grid : "No
  recipes found"\<close> and the modal under \<open>selectedRecipe && ...\<close>.
\<close>

definition App_render :: "app_ts \<Rightarrow> view" where
  "App_render s =
     (case useQuery_result s of
        (rs, isLoading, err) \<Rightarrow>
          if isLoading then LoadingView
          else (case err of
                  Some e \<Rightarrow> ErrorView (''An error occurred: '' @ message e)
                | None \<Rightarrow>
                    MainView
                      (case rs of
                         None \<Rightarrow> NoRecipesFound
                       | Some hs \<Rightarrow> if 0 < length hs then Grid (map render_card hs)
                                   else NoRecipesFound)
                      (map_option render_modal (selectedRecipe s))))"

text \<open>
  The events of the page. An element takes events only where \<open>App\<close> renders it: the
  search form on the main page (the loading page and the error page have none), a
  card where the grid shows it, the close buttons where the modal is shown.
  \<open>Settled k out\<close> is the settlement of the fetch of key \<open>k\<close>. A step returns the
  keys whose fetch it starts.
\<close>

datatype event_ts =
    SearchChange string
  | SearchSubmit
  | KeyPress string
  | ClickCard nat
  | CloseModal
  | Settled query_key net_outcome

definition form_rendered :: "app_ts \<Rightarrow> bool" where
  "form_rendered s = (case App_render s of MainView g m \<Rightarrow> True | _ \<Rightarrow> False)"

definition clickCard :: "nat \<Rightarrow> app_ts \<Rightarrow> app_ts" where
  "clickCard i s =
     (case App_render s of
        MainView (Grid cs) m \<Rightarrow>
          if i < length cs then setSelectedRecipe (Some (card_recipe (cs ! i))) s else s
      | _ \<Rightarrow> s)"

definition closeModal :: "app_ts \<Rightarrow> app_ts" where
  "closeModal s =
     (case App_render s of
        MainView g (Some m) \<Rightarrow> setSelectedRecipe None s
      | _ \<Rightarrow> s)"

fun step_ts :: "client_options \<Rightarrow> app_ts \<Rightarrow> event_ts \<Rightarrow> app_ts \<times> query_key list" where
  "step_ts opts s (SearchChange v) =
     (if form_rendered s then useQuery_rerender opts s (handleSearchChange v s) else (s, []))"
| "step_ts opts s SearchSubmit =
     (if form_rendered s then useQuery_rerender opts s (handleSearchSubmit s) else (s, []))"
| "step_ts opts s (KeyPress key) =
     (if form_rendered s then useQuery_rerender opts s (handleKeyPress key s) else (s, []))"
| "step_ts opts s (ClickCard i) = useQuery_rerender opts s (clickCard i s)"
| "step_ts opts s CloseModal = useQuery_rerender opts s (closeModal s)"
| "step_ts opts s (Settled k out) =
     (case settle opts k (fetchRecipes out) (cache s) of (c, ks) \<Rightarrow> (s\<lparr>cache := c\<rparr>, ks))"

text \<open>A run from the mount, with the log of every fetch started.\<close>

definition run_ts :: "client_options \<Rightarrow> event_ts list \<Rightarrow> app_ts \<times> query_key list" where
  "run_ts opts evs =
     foldl (\<lambda>(s, log) ev. case step_ts opts s ev of (s', ks) \<Rightarrow> (s', log @ ks)) (mount_ts opts) evs"

text \<open>
  The fetch status of the specification, read off what \<open>useQuery\<close> returns, in the
  order in which \<open>App\<close> tests it.
\<close>

datatype fetch_status = Idle | Loading | Success "recipe_hit list" | Failure string

definition fetchStatus :: "app_ts \<Rightarrow> fetch_status" where
  "fetchStatus s =
     (case useQuery_result s of
        (rs, isLoading, err) \<Rightarrow>
          if isLoading then Loading
          else (case err of
                  Some e \<Rightarrow> Failure (message e)
                | None \<Rightarrow> (case rs of None \<Rightarrow> Idle | Some hs \<Rightarrow> Success hs)))"

subsection \<open>Sample data\<close>

definition hit_a :: recipe_hit where
  "hit_a = Hit \<lparr>label = ''Chicken soup'', image_url = ''a.jpg'', source = ''Kitchen'',
     url = ''http://a'', yield = Some (Fin 4), calories = Fin 800, totalNutrients = None\<rparr>"

definition hit_b :: recipe_hit where
  "hit_b = Hit \<lparr>label = ''Pasta bake'', image_url = ''b.jpg'', source = ''Kitchen'',
     url = ''http://b'', yield = None, calories = Fin 1000, totalNutrients = None\<rparr>"

definition opts0 :: client_options where
  "opts0 = \<lparr>retry = 0, refetchStale = True\<rparr>"

text \<open>
  A run of the TypeScript page that ends with two fetches in flight: both queries
  have been shown once, so that committing \<open>chicken\<close> and then \<open>pasta\<close> again shows
  the cached results with the form, while each key is fetched again.
\<close>

definition race_ts :: "event_ts list" where
  "race_ts =
     [Settled (''recipes'', ''chicken'') (Responds True (Json [hit_a])),
      SearchChange ''pasta'', SearchSubmit,
      Settled (''recipes'', ''pasta'') (Responds True (Json [hit_b])),
      SearchChange ''chicken'', SearchSubmit,
      SearchChange ''pasta'', SearchSubmit]"

text \<open>A run that ends with a recipe selected and a new draft typed.\<close>

definition select_pasta_ts :: "event_ts list" where
  "select_pasta_ts =
     [Settled (''recipes'', ''chicken'') (Responds True (Json [hit_a])),
      ClickCard 0, SearchChange ''pasta'']"

section \<open>Properties\<close>

lemmas js_defs = run_js_def mount_js_def init_js_def updateSearch_def submit_js_def
  getSearch_def useEffect_query_def render_js_def

lemmas handler_defs = handleSearchChange_def handleSearchSubmit_def handleKeyPress_def
  setSelectedRecipe_def

lemmas ts_defs = run_ts_def mount_ts_def init_ts_def queryKey_def observe_def settle_def
  fetch_start_def handler_defs useQuery_rerender_def useQuery_result_def App_render_def
  form_rendered_def clickCard_def closeModal_def fetchStatus_def render_card_def
  render_modal_def

subsection \<open>The query cache\<close>

lemma settle_other_key: "k' \<noteq> k \<Longrightarrow> fst (settle opts k r c) k' = c k'"
  by (simp add: settle_def split: option.splits sum.splits)

lemma settle_resolved:
  "c k = Some e \<Longrightarrow> fetching e \<Longrightarrow>
   settle opts k (Inr hs) c =
     (c(k \<mapsto> e\<lparr>data := Some hs, error := None, fetching := False, failureCount := 0\<rparr>), [])"
  by (simp add: settle_def)

lemma settle_rejected_final:
  "c k = Some e \<Longrightarrow> fetching e \<Longrightarrow> retry opts \<le> failureCount e \<Longrightarrow>
   settle opts k (Inl err) c =
     (c(k \<mapsto> e\<lparr>error := Some err, fetching := False, failureCount := Suc (failureCount e)\<rparr>), [])"
  by (simp add: settle_def)

lemma settle_rejected_retry:
  "c k = Some e \<Longrightarrow> fetching e \<Longrightarrow> failureCount e < retry opts \<Longrightarrow>
   settle opts k (Inl err) c = (c(k \<mapsto> e\<lparr>failureCount := Suc (failureCount e)\<rparr>), [k])"
  by (simp add: settle_def)

lemma observe_cached: "fst (observe opts k c) k \<noteq> None"
  by (simp add: observe_def split: option.splits)

lemma settle_keeps: "c k' \<noteq> None \<Longrightarrow> fst (settle opts k r c) k' \<noteq> None"
  by (auto simp add: settle_def split: option.splits sum.splits)

text \<open>
  From the mount on, the key of the current render always has an entry in the cache:
  the hypothesis \<open>cache s (queryKey s) = Some e\<close> of the theorems below holds in
  every state the page can reach.
\<close>

lemma current_key_cached_mount:
  "cache (fst (mount_ts opts)) (queryKey (fst (mount_ts opts))) \<noteq> None"
  by (simp add: mount_ts_def observe_def init_ts_def queryKey_def)

lemma rerender_cached:
  assumes "cache cur = cache prev" and "cache prev (queryKey prev) \<noteq> None"
  shows "cache (fst (useQuery_rerender opts prev cur))
           (queryKey (fst (useQuery_rerender opts prev cur))) \<noteq> None"
proof (cases "queryKey cur = queryKey prev")
  case True
  with assms show ?thesis by (simp add: useQuery_rerender_def)
next
  case False
  have "fst (observe opts (queryKey cur) (cache cur)) (queryKey cur) \<noteq> None"
    by (rule observe_cached)
  with False show ?thesis
    by (simp add: useQuery_rerender_def queryKey_def case_prod_beta)
qed

lemma handlers_keep_cache:
  "cache (handleSearchChange v s) = cache s"
  "cache (handleSearchSubmit s) = cache s"
  "cache (handleKeyPress key s) = cache s"
  "cache (clickCard i s) = cache s"
  "cache (closeModal s) = cache s"
  by (simp_all add: handler_defs clickCard_def closeModal_def
      split: view.splits results_view.splits option.splits)

lemma current_key_cached_step:
  assumes "cache s (queryKey s) \<noteq> None"
  shows "cache (fst (step_ts opts s ev)) (queryKey (fst (step_ts opts s ev))) \<noteq> None"
proof (cases ev)
  case (Settled k out)
  have "fst (settle opts k (fetchRecipes out) (cache s)) (queryKey s) \<noteq> None"
    using assms by (rule settle_keeps)
  with Settled show ?thesis
    by (simp add: queryKey_def case_prod_beta)
qed (simp_all add: rerender_cached handlers_keep_cache assms del: not_None_eq)

subsection \<open>Committing a query\<close>

text \<open>
  Claim C5. In every state, committing the query copies the draft text into the
  committed query and clears the selected recipe: \<open>handleSearchSubmit\<close> sets \<open>query\<close>
  to \<open>searchTerm\<close> and \<open>selectedRecipe\<close> to \<open>null\<close>, the Enter key does the same,
  and wherever the form is on the page this is the state after the submission. The
  JavaScript version, which holds no selection, copies its draft \<open>search\<close> into
  \<open>query\<close> likewise.
\<close>

theorem commit_copies_draft_clears_selection:
  "query (handleSearchSubmit s) = searchTerm s \<and>
   selectedRecipe (handleSearchSubmit s) = None \<and>
   handleKeyPress ''Enter'' s = handleSearchSubmit s \<and>
   (form_rendered s \<longrightarrow>
      query (fst (step_ts opts s SearchSubmit)) = searchTerm s \<and>
      selectedRecipe (fst (step_ts opts s SearchSubmit)) = None) \<and>
   query (getSearch a) = search a \<and>
   query (fst (submit_js a)) = search a"
  by (simp add: handleSearchSubmit_def handleKeyPress_def getSearch_def submit_js_def Let_def
      useQuery_rerender_def case_prod_beta)

theorem commit_copies_draft_clears_selection_witness:
  "form_rendered (fst (run_ts opts0 select_pasta_ts)) \<and>
   searchTerm (fst (run_ts opts0 select_pasta_ts)) = ''pasta'' \<and>
   query (fst (run_ts opts0 select_pasta_ts)) = ''chicken'' \<and>
   selectedRecipe (fst (run_ts opts0 select_pasta_ts)) = Some (recipe hit_a) \<and>
   query (fst (run_ts opts0 (select_pasta_ts @ [SearchSubmit]))) = ''pasta'' \<and>
   selectedRecipe (fst (run_ts opts0 (select_pasta_ts @ [SearchSubmit]))) = None"
  using commit_copies_draft_clears_selection [of "fst (run_ts opts0 select_pasta_ts)" opts0 init_js]
  by (simp add: select_pasta_ts_def ts_defs opts0_def)

text \<open>
  Claim C9. In the JavaScript version, \<open>getSearch\<close> also resets the draft text to
  the empty string, besides copying it into the committed query; \<open>handleSearchSubmit\<close>
  of the TypeScript version leaves the draft as it is.
\<close>

theorem getSearch_clears_draft:
  "search (getSearch a) = [] \<and>
   query (getSearch a) = search a \<and>
   search (fst (submit_js a)) = [] \<and>
   searchTerm (handleSearchSubmit s) = searchTerm s"
  by (simp add: getSearch_def submit_js_def handleSearchSubmit_def Let_def)




text \<open>
  Claim C7, as stated, fails: with the committed query \<open>chicken\<close> and the draft
  \<open>chicken\<close>, submitting the form starts no fetch. In the run below the fetch of the
  mount has settled, the user types \<open>chicken\<close> and submits, and nothing is in flight.
\<close>

theorem resubmit_unchanged_counterexample:
  "snd (submit_js \<lparr>query = ''chicken'', recipes = [hit_a], search = ''chicken''\<rparr>) = [] \<and>
   inflight (run_js [Settle ''chicken'' (Responds True (Json [hit_a])),
                     UpdateSearch ''chicken'', SubmitForm]) = []"
  by (simp add: js_defs Let_def)

text \<open>
  Claim C7, amended. Resubmitting a draft equal to the committed query starts no
  fetch, in either version: the dependency list \<open>[query]\<close> of the effect, and the
  query key \<open>['recipes', query]\<close>, are unchanged, and the cache is left as it was.
\<close>

theorem unchanged_commit_no_fetch:
  assumes "search a = query a" and "searchTerm s = query s"
  shows "snd (submit_js a) = [] \<and> snd (step_ts opts s SearchSubmit) = [] \<and>
         cache (fst (step_ts opts s SearchSubmit)) = cache s"
  using assms
  by (simp add: submit_js_def getSearch_def useEffect_query_def Let_def
      handleSearchSubmit_def useQuery_rerender_def queryKey_def)

theorem unchanged_commit_no_fetch_witness:
  "search (app (run_js [UpdateSearch ''chicken''])) = ''chicken'' \<and>
   query (app (run_js [UpdateSearch ''chicken''])) = ''chicken'' \<and>
   searchTerm (fst (run_ts opts0 [Settled (''recipes'', ''chicken'') (Responds True (Json [hit_a])),
       SearchChange ''chicken''])) = ''chicken'' \<and>
   query (fst (run_ts opts0 [Settled (''recipes'', ''chicken'') (Responds True (Json [hit_a])),
       SearchChange ''chicken''])) = ''chicken'' \<and>
   snd (submit_js (app (run_js [UpdateSearch ''chicken'']))) = [] \<and>
   run_ts opts0 [Settled (''recipes'', ''chicken'') (Responds True (Json [hit_a])),
       SearchChange ''chicken'', SearchSubmit] =
     (fst (run_ts opts0 [Settled (''recipes'', ''chicken'') (Responds True (Json [hit_a])),
       SearchChange ''chicken'']), [(''recipes'', ''chicken'')])"
  using unchanged_commit_no_fetch [of "app (run_js [UpdateSearch ''chicken''])"
      "fst (run_ts opts0 [Settled (''recipes'', ''chicken'') (Responds True (Json [hit_a])),
       SearchChange ''chicken''])" opts0]
  by (simp add: js_defs ts_defs opts0_def)

subsection \<open>Per-serving figures\<close>

lemma per_serving_examples:
  "card_calories (recipe hit_a) = Fin 200"
  "card_calories (recipe hit_b) = Fin 250"
  "card_calories ((recipe hit_a)\<lparr>yield := Some (Fin 0), calories := Fin 10\<rparr>) = Fin 3"
  "nutrient_grid ((recipe hit_a)\<lparr>yield := Some NaN,
      totalNutrients := Some [(''FAT'', Nutrient ''Fat'' (Fin 9) ''g''),
                              (''SUGAR'', Nutrient ''Sugars'' (Fin 9) ''g'')]\<rparr>) = [(''FAT'', Fin 2)]"
  by (simp_all add: card_calories_def hit_a_def hit_b_def yield_or_4_def nutrient_grid_def
      nutrient_cell_def nutrient_keys_def List.map_filter_simps)

text \<open>
  Claim C10. Every per-serving figure on the card and in the modal (calories and
  each nutrient) is \<open>Math.round\<close> of a quotient whose divisor is \<open>yield || 4\<close>: the
  yield itself when it is present and neither \<open>0\<close> nor \<open>NaN\<close>, and \<open>4\<close> otherwise.
  For every recipe this divisor is different from zero.
\<close>

theorem per_serving_divisor_nonzero:
  "yield_or_4 r \<noteq> Fin 0 \<and>
   yield_or_4 r =
     (case yield r of None \<Rightarrow> Fin 4 | Some y \<Rightarrow> if y = Fin 0 \<or> y = NaN then Fin 4 else y) \<and>
   card_cal (render_card h) = Math_round (js_div (calories (recipe h)) (yield_or_4 (recipe h))) \<and>
   modal_cal (render_modal r) = Math_round (js_div (calories r) (yield_or_4 r)) \<and>
   nutrient_cell r k =
     map_option (\<lambda>v. Math_round (js_div (quantity v) (yield_or_4 r)))
       (case totalNutrients r of None \<Rightarrow> None | Some tn \<Rightarrow> map_of tn k) \<and>
   modal_nutrients (render_modal r) =
     List.map_filter (\<lambda>k. map_option (\<lambda>v. (k, v)) (nutrient_cell r k)) nutrient_keys"
proof -
  have "yield_or_4 r \<noteq> Fin 0"
    by (auto simp add: yield_or_4_def split: option.splits)
  moreover have "yield_or_4 r =
     (case yield r of None \<Rightarrow> Fin 4 | Some y \<Rightarrow> if y = Fin 0 \<or> y = NaN then Fin 4 else y)"
    by (auto simp add: yield_or_4_def split: option.splits elim: truthy.elims)
  moreover have "nutrient_cell r k =
     map_option (\<lambda>v. Math_round (js_div (quantity v) (yield_or_4 r)))
       (case totalNutrients r of None \<Rightarrow> None | Some tn \<Rightarrow> map_of tn k)"
    by (simp add: nutrient_cell_def split: option.splits)
  ultimately show ?thesis
    by (simp add: render_card_def render_modal_def card_calories_def modal_calories_def
        nutrient_grid_def)
qed

subsection \<open>What the page shows after a settlement\<close>

lemma render_depends:
  "query t = query s \<Longrightarrow> selectedRecipe t = selectedRecipe s \<Longrightarrow>
   cache t (queryKey s) = cache s (queryKey s) \<Longrightarrow>
   App_render t = App_render s \<and> fetchStatus t = fetchStatus s"
  by (simp add: App_render_def fetchStatus_def useQuery_result_def queryKey_def
      split: option.splits)

lemma render_resolved:
  assumes "cache s (queryKey s) = Some e" and "data e = Some hs" and "error e = None"
  shows "App_render s =
           MainView (if 0 < length hs then Grid (map render_card hs) else NoRecipesFound)
             (map_option render_modal (selectedRecipe s))"
    and "fetchStatus s = Success hs"
  using assms by (simp_all add: App_render_def fetchStatus_def useQuery_result_def)

lemma render_failed:
  assumes "cache s (queryKey s) = Some e" and "error e = Some err"
  shows "App_render s = ErrorView (''An error occurred: '' @ message err)"
    and "fetchStatus s = Failure (message err)"
  using assms by (simp_all add: App_render_def fetchStatus_def useQuery_result_def)

lemma step_resolved_current:
  assumes "cache s (queryKey s) = Some e" and "fetching e"
  shows "step_ts opts s (Settled (queryKey s) (Responds True (Json hs))) =
    (s\<lparr>cache := (cache s)(queryKey s \<mapsto>
        e\<lparr>data := Some hs, error := None, fetching := False, failureCount := 0\<rparr>)\<rparr>, [])"
  using assms by (simp add: settle_resolved)

lemma step_rejected_current:
  assumes "cache s (queryKey s) = Some e" and "fetching e" and "retry opts \<le> failureCount e"
    and "fetchRecipes out = Inl err"
  shows "step_ts opts s (Settled (queryKey s) out) =
    (s\<lparr>cache := (cache s)(queryKey s \<mapsto>
        e\<lparr>error := Some err, fetching := False, failureCount := Suc (failureCount e)\<rparr>)\<rparr>, [])"
  using assms by (simp add: settle_rejected_final)

lemma rejection_retried:
  assumes "cache s (queryKey s) = Some e" and "fetching e" and "failureCount e < retry opts"
    and "fetchRecipes out = Inl err"
  shows "snd (step_ts opts s (Settled (queryKey s) out)) = [queryKey s]"
    and "App_render (fst (step_ts opts s (Settled (queryKey s) out))) = App_render s"
  using assms
  by (simp_all add: settle_rejected_retry App_render_def useQuery_result_def
      queryKey_def split: option.splits)

lemma settled_other_key:
  assumes "k \<noteq> queryKey s"
  shows "App_render (fst (step_ts opts s (Settled k out))) = App_render s"
    and "fetchStatus (fst (step_ts opts s (Settled k out))) = fetchStatus s"
proof -
  have "fst (settle opts k (fetchRecipes out) (cache s)) (queryKey s) = cache s (queryKey s)"
    using assms by (simp add: settle_other_key)
  then have "App_render (fst (step_ts opts s (Settled k out))) = App_render s \<and>
             fetchStatus (fst (step_ts opts s (Settled k out))) = fetchStatus s"
    by (intro render_depends) (simp_all add: case_prod_beta)
  then show "App_render (fst (step_ts opts s (Settled k out))) = App_render s"
    and "fetchStatus (fst (step_ts opts s (Settled k out))) = fetchStatus s"
    by simp_all
qed

subsection \<open>Stale responses\<close>

text \<open>
  Claim C1, as stated, fails in the JavaScript version. The page mounts with the
  query \<open>chicken\<close> (Q1); the user commits \<open>pasta\<close> (Q2); the fetch for \<open>pasta\<close>
  resolves first, then the one for \<open>chicken\<close>. \<open>getRecipes\<close> calls \<open>setRecipes\<close>
  on every resolution, so the page ends with the committed query \<open>pasta\<close> and the
  results of \<open>chicken\<close>.
\<close>

theorem stale_response_overwrites_counterexample:
  "query (app (run_js [UpdateSearch ''pasta'', SubmitForm,
       Settle ''pasta'' (Responds True (Json [hit_b])),
       Settle ''chicken'' (Responds True (Json [hit_a]))])) = ''pasta'' \<and>
   recipes (app (run_js [UpdateSearch ''pasta'', SubmitForm,
       Settle ''pasta'' (Responds True (Json [hit_b])),
       Settle ''chicken'' (Responds True (Json [hit_a]))])) = [hit_a] \<and>
   render_js (app (run_js [UpdateSearch ''pasta'', SubmitForm,
       Settle ''pasta'' (Responds True (Json [hit_b])),
       Settle ''chicken'' (Responds True (Json [hit_a]))])) =
     Grid [RecipeProps ''Chicken soup'' (Fin 800) ''a.jpg''] \<and>
   hit_a \<noteq> hit_b"
  by (simp add: js_defs Let_def hit_a_def hit_b_def)

text \<open>
  Distinct queries have distinct keys, a commit fetches under the key of the query
  it commits, and a settlement leaves the component's own state alone.
\<close>

lemma queryKey_inject: "queryKey s = queryKey t \<longleftrightarrow> query s = query t"
  by (simp add: queryKey_def)

lemma commit_fetch_key:
  "snd (step_ts opts s SearchSubmit) = [] \<or>
   snd (step_ts opts s SearchSubmit) = [queryKey (s\<lparr>query := searchTerm s\<rparr>)]"
  by (simp add: useQuery_rerender_def handleSearchSubmit_def observe_def queryKey_def
      split: option.splits)

lemma settled_keeps_query: "query (fst (step_ts opts s (Settled k out))) = query s"
  by (simp add: case_prod_beta)

text \<open>
  Claim C1, amended. In the TypeScript version the page shows the cache entry of the
  key \<open>['recipes', query]\<close> of the committed query. Let the committed query be Q2
  and let Q1 differ from Q2. The key of Q1 differs from the key of Q2, and the
  settlement of Q1's fetch, whatever it delivers, changes neither the page nor the
  fetch status nor what \<open>useQuery\<close> returns. In particular, when Q2's fetch settles
  first and Q1's afterwards, the page and the fetch status stay those that Q2's
  settlement gave; if Q2's fetch resolved with the list \<open>hs\<close>, the status stays the
  success with \<open>hs\<close> and the page shows \<open>hs\<close>.
\<close>

theorem stale_settlement_not_displayed:
  assumes "q1 \<noteq> query s"
  shows "queryKey (s\<lparr>query := q1\<rparr>) \<noteq> queryKey s \<and>
         App_render (fst (step_ts opts s (Settled (queryKey (s\<lparr>query := q1\<rparr>)) out))) =
           App_render s \<and>
         fetchStatus (fst (step_ts opts s (Settled (queryKey (s\<lparr>query := q1\<rparr>)) out))) =
           fetchStatus s \<and>
         App_render (fst (step_ts opts (fst (step_ts opts s (Settled (queryKey s) out2)))
             (Settled (queryKey (s\<lparr>query := q1\<rparr>)) out))) =
           App_render (fst (step_ts opts s (Settled (queryKey s) out2))) \<and>
         fetchStatus (fst (step_ts opts (fst (step_ts opts s (Settled (queryKey s) out2)))
             (Settled (queryKey (s\<lparr>query := q1\<rparr>)) out))) =
           fetchStatus (fst (step_ts opts s (Settled (queryKey s) out2))) \<and>
         (cache s (queryKey s) = Some e \<and> fetching e \<longrightarrow>
            fetchStatus (fst (step_ts opts
                (fst (step_ts opts s (Settled (queryKey s) (Responds True (Json hs)))))
                (Settled (queryKey (s\<lparr>query := q1\<rparr>)) out))) = Success hs \<and>
            App_render (fst (step_ts opts
                (fst (step_ts opts s (Settled (queryKey s) (Responds True (Json hs)))))
                (Settled (queryKey (s\<lparr>query := q1\<rparr>)) out))) =
              MainView (if 0 < length hs then Grid (map render_card hs) else NoRecipesFound)
                (map_option render_modal (selectedRecipe s)))"
proof -
  let ?k = "queryKey (s\<lparr>query := q1\<rparr>)"
  have key: "?k \<noteq> queryKey s"
    using assms by (simp add: queryKey_inject)
  have stale: "App_render (fst (step_ts opts t (Settled ?k out))) = App_render t \<and>
               fetchStatus (fst (step_ts opts t (Settled ?k out))) = fetchStatus t"
    if "query t = query s" for t
  proof -
    from that have "queryKey t = queryKey s"
      by (simp add: queryKey_inject)
    with key have "?k \<noteq> queryKey t"
      by simp
    then show ?thesis
      using settled_other_key [of ?k t opts out] by blast
  qed
  have here: "App_render (fst (step_ts opts s (Settled ?k out))) = App_render s \<and>
              fetchStatus (fst (step_ts opts s (Settled ?k out))) = fetchStatus s"
    by (rule stale) simp
  have after: "App_render (fst (step_ts opts (fst (step_ts opts s (Settled (queryKey s) o2)))
                  (Settled ?k out))) =
                 App_render (fst (step_ts opts s (Settled (queryKey s) o2))) \<and>
               fetchStatus (fst (step_ts opts (fst (step_ts opts s (Settled (queryKey s) o2)))
                  (Settled ?k out))) =
                 fetchStatus (fst (step_ts opts s (Settled (queryKey s) o2)))" for o2
    by (rule stale) (rule settled_keeps_query)
  have resolved: "fetchStatus (fst (step_ts opts s (Settled (queryKey s) (Responds True (Json hs))))) =
                    Success hs \<and>
                  App_render (fst (step_ts opts s (Settled (queryKey s) (Responds True (Json hs))))) =
                    MainView (if 0 < length hs then Grid (map render_card hs) else NoRecipesFound)
                      (map_option render_modal (selectedRecipe s))"
    if e: "cache s (queryKey s) = Some e" "fetching e"
  proof -
    define u where "u = s\<lparr>cache := (cache s)(queryKey s \<mapsto>
        e\<lparr>data := Some hs, error := None, fetching := False, failureCount := 0\<rparr>)\<rparr>"
    have step_u: "fst (step_ts opts s (Settled (queryKey s) (Responds True (Json hs)))) = u"
      by (simp only: step_resolved_current [OF e] fst_conv u_def)
    have entry: "cache u (queryKey u) =
        Some (e\<lparr>data := Some hs, error := None, fetching := False, failureCount := 0\<rparr>)"
      by (simp add: u_def queryKey_def)
    have "fetchStatus u = Success hs"
      by (rule render_resolved(2) [OF entry]) simp_all
    moreover have "App_render u =
        MainView (if 0 < length hs then Grid (map render_card hs) else NoRecipesFound)
          (map_option render_modal (selectedRecipe u))"
      by (rule render_resolved(1) [OF entry]) simp_all
    moreover have "selectedRecipe u = selectedRecipe s"
      by (simp add: u_def)
    ultimately show ?thesis
      by (simp only: step_u)
  qed
  show ?thesis
    using key here after [of out2] after [of "Responds True (Json hs)"] resolved
    by (auto simp del: step_ts.simps)
qed

theorem stale_settlement_not_displayed_witness:
  "''chicken'' \<noteq> query (fst (run_ts opts0 race_ts)) \<and>
   queryKey ((fst (run_ts opts0 race_ts))\<lparr>query := ''chicken''\<rparr>) = (''recipes'', ''chicken'') \<and>
   cache (fst (run_ts opts0 race_ts)) (queryKey (fst (run_ts opts0 race_ts))) =
     Some \<lparr>data = Some [hit_b], error = None, fetching = True, failureCount = 0\<rparr> \<and>
   cache (fst (run_ts opts0 race_ts)) (''recipes'', ''chicken'') =
     Some \<lparr>data = Some [hit_a], error = None, fetching = True, failureCount = 0\<rparr> \<and>
   fetchStatus (fst (run_ts opts0 (race_ts @
       [Settled (''recipes'', ''pasta'') (Responds True (Json [hit_b, hit_b])),
        Settled (''recipes'', ''chicken'') (Responds True (Json [hit_a, hit_a]))]))) =
     Success [hit_b, hit_b] \<and>
   App_render (fst (run_ts opts0 (race_ts @
       [Settled (''recipes'', ''pasta'') (Responds True (Json [hit_b, hit_b])),
        Settled (''recipes'', ''chicken'') (Responds True (Json [hit_a, hit_a]))]))) =
     MainView (Grid [render_card hit_b, render_card hit_b]) None"
  using stale_settlement_not_displayed [of "''chicken''" "fst (run_ts opts0 race_ts)" opts0
      "Responds True (Json [hit_a, hit_a])" "Responds True (Json [hit_b, hit_b])"
      "\<lparr>data = Some [hit_b], error = None, fetching = True, failureCount = 0\<rparr>" "[hit_b, hit_b]"]
  by (simp add: race_ts_def ts_defs opts0_def)

subsection \<open>Failures\<close>

text \<open>
  Claim C2, as stated, fails in the JavaScript version, which has no failure state
  and never reads \<open>response.ok\<close>. With the results of \<open>chicken\<close> on the page, the user
  commits \<open>pasta\<close> and the response is not OK with a body that is not JSON: the
  rejection of \<open>response.json()\<close> is caught by nothing and the page keeps showing the
  results of \<open>chicken\<close>. A response that is not OK but carries hits is shown as a
  result.
\<close>

theorem not_ok_response_counterexample:
  "query (app (run_js [Settle ''chicken'' (Responds True (Json [hit_a])),
       UpdateSearch ''pasta'', SubmitForm,
       Settle ''pasta'' (Responds False (BadJson (JsError ''SyntaxError'' ''Unexpected token'')))]))
     = ''pasta'' \<and>
   render_js (app (run_js [Settle ''chicken'' (Responds True (Json [hit_a])),
       UpdateSearch ''pasta'', SubmitForm,
       Settle ''pasta'' (Responds False (BadJson (JsError ''SyntaxError'' ''Unexpected token'')))]))
     = Grid [RecipeProps ''Chicken soup'' (Fin 800) ''a.jpg''] \<and>
   unhandled (run_js [Settle ''chicken'' (Responds True (Json [hit_a])),
       UpdateSearch ''pasta'', SubmitForm,
       Settle ''pasta'' (Responds False (BadJson (JsError ''SyntaxError'' ''Unexpected token'')))])
     = [JsError ''SyntaxError'' ''Unexpected token''] \<and>
   getRecipes_settled (Responds False (Json [hit_b])) init_js = Inr (init_js\<lparr>recipes := [hit_b]\<rparr>)"
  by (simp add: js_defs Let_def hit_a_def)

text \<open>
  Claim C2, amended. In the TypeScript version \<open>fetchRecipes\<close> rejects every response
  that is not OK with the message "Network response was not ok", whatever its body.
  When the query of the committed key takes that rejection as final (it has no retry
  left), the fetch status is the failure with that message and the page is the error
  page alone, "An error occurred: Network response was not ok", which shows no
  results.
\<close>

theorem not_ok_becomes_failure:
  assumes "cache s (queryKey s) = Some e" and "fetching e" and "retry opts \<le> failureCount e"
  shows "fetchRecipes (Responds False b) = Inl (JsError ''Error'' ''Network response was not ok'') \<and>
         fetchStatus (fst (step_ts opts s (Settled (queryKey s) (Responds False b)))) =
           Failure ''Network response was not ok'' \<and>
         App_render (fst (step_ts opts s (Settled (queryKey s) (Responds False b)))) =
           ErrorView ''An error occurred: Network response was not ok''"
proof -
  let ?err = "JsError ''Error'' ''Network response was not ok''"
  define u where "u = s\<lparr>cache := (cache s)(queryKey s \<mapsto>
        e\<lparr>error := Some ?err, fetching := False, failureCount := Suc (failureCount e)\<rparr>)\<rparr>"
  have rej: "fetchRecipes (Responds False b) = Inl ?err"
    by simp
  have step_u: "fst (step_ts opts s (Settled (queryKey s) (Responds False b))) = u"
    by (simp only: step_rejected_current [OF assms rej] fst_conv u_def)
  have entry: "cache u (queryKey u) =
      Some (e\<lparr>error := Some ?err, fetching := False, failureCount := Suc (failureCount e)\<rparr>)"
    by (simp add: u_def queryKey_def)
  have "fetchStatus u = Failure (message ?err)"
    by (rule render_failed(2) [OF entry]) simp
  moreover have "App_render u = ErrorView (''An error occurred: '' @ message ?err)"
    by (rule render_failed(1) [OF entry]) simp
  ultimately show ?thesis
    using rej by (simp only: step_u) simp
qed

theorem not_ok_becomes_failure_witness:
  "cache (fst (mount_ts opts0)) (queryKey (fst (mount_ts opts0))) =
     Some \<lparr>data = None, error = None, fetching = True, failureCount = 0\<rparr> \<and>
   retry opts0 \<le> 0 \<and>
   App_render (fst (run_ts opts0 [Settled (''recipes'', ''chicken'') (Responds False (Json [hit_a]))])) =
     ErrorView ''An error occurred: Network response was not ok''"
  using not_ok_becomes_failure [of "fst (mount_ts opts0)"
      "\<lparr>data = None, error = None, fetching = True, failureCount = 0\<rparr>" opts0 "Json [hit_a]"]
  by (simp add: ts_defs opts0_def)

text \<open>
  Claim C3, as stated, fails in the JavaScript version: when the fetch of the mount
  rejects, the promise of \<open>getRecipes\<close> rejects with nothing to catch it; the state is
  the initial one and the page is the empty grid, with no failure shown.
\<close>

theorem rejection_unhandled_counterexample:
  "app (run_js [Settle ''chicken'' (Rejects (JsError ''TypeError'' ''Failed to fetch''))]) = init_js \<and>
   unhandled (run_js [Settle ''chicken'' (Rejects (JsError ''TypeError'' ''Failed to fetch''))]) =
     [JsError ''TypeError'' ''Failed to fetch''] \<and>
   render_js (app (run_js [Settle ''chicken'' (Rejects (JsError ''TypeError'' ''Failed to fetch''))])) =
     Grid []"
  by (simp add: js_defs)

text \<open>
  Claim C3, amended. In the TypeScript version every rejection of \<open>fetchRecipes\<close> (the
  network call rejects, the status is not OK, the body is not JSON) is taken by the
  query: once no retry is left it becomes the failure state with the message of the
  error, the page is the error page with that message, and no further fetch starts.
\<close>

theorem rejection_becomes_failure:
  assumes "cache s (queryKey s) = Some e" and "fetching e" and "retry opts \<le> failureCount e"
    and "fetchRecipes out = Inl err"
  shows "fetchStatus (fst (step_ts opts s (Settled (queryKey s) out))) = Failure (message err) \<and>
         App_render (fst (step_ts opts s (Settled (queryKey s) out))) =
           ErrorView (''An error occurred: '' @ message err) \<and>
         snd (step_ts opts s (Settled (queryKey s) out)) = []"
proof -
  define u where "u = s\<lparr>cache := (cache s)(queryKey s \<mapsto>
        e\<lparr>error := Some err, fetching := False, failureCount := Suc (failureCount e)\<rparr>)\<rparr>"
  have step_u: "step_ts opts s (Settled (queryKey s) out) = (u, [])"
    by (simp only: step_rejected_current [OF assms] u_def)
  have entry: "cache u (queryKey u) =
      Some (e\<lparr>error := Some err, fetching := False, failureCount := Suc (failureCount e)\<rparr>)"
    by (simp add: u_def queryKey_def)
  have "fetchStatus u = Failure (message err)"
    by (rule render_failed(2) [OF entry]) simp
  moreover have "App_render u = ErrorView (''An error occurred: '' @ message err)"
    by (rule render_failed(1) [OF entry]) simp
  ultimately show ?thesis
    by (simp only: step_u fst_conv snd_conv)
qed

theorem rejection_becomes_failure_witness:
  "cache (fst (mount_ts opts0)) (queryKey (fst (mount_ts opts0))) =
     Some \<lparr>data = None, error = None, fetching = True, failureCount = 0\<rparr> \<and>
   retry opts0 \<le> 0 \<and>
   fetchRecipes (Rejects (JsError ''TypeError'' ''Failed to fetch'')) =
     Inl (JsError ''TypeError'' ''Failed to fetch'') \<and>
   run_ts opts0 [Settled (''recipes'', ''chicken'') (Rejects (JsError ''TypeError'' ''Failed to fetch''))] =
     (init_ts\<lparr>cache := [(''recipes'', ''chicken'') \<mapsto>
         \<lparr>data = None, error = Some (JsError ''TypeError'' ''Failed to fetch''),
           fetching = False, failureCount = 1\<rparr>]\<rparr>, [(''recipes'', ''chicken'')]) \<and>
   App_render (fst (run_ts opts0
       [Settled (''recipes'', ''chicken'') (Rejects (JsError ''TypeError'' ''Failed to fetch''))])) =
     ErrorView ''An error occurred: Failed to fetch''"
  using rejection_becomes_failure [of "fst (mount_ts opts0)"
      "\<lparr>data = None, error = None, fetching = True, failureCount = 0\<rparr>" opts0
      "Rejects (JsError ''TypeError'' ''Failed to fetch'')" "JsError ''TypeError'' ''Failed to fetch''"]
  by (simp add: ts_defs opts0_def)

subsection \<open>Empty results\<close>

text \<open>
  Claim C4, as stated, fails in the JavaScript version: after a response with an
  empty list of hits the page is the grid with no card in it; that version has no
  "no results" block.
\<close>

theorem empty_results_blank_grid_counterexample:
  "recipes (app (run_js [Settle ''chicken'' (Responds True (Json []))])) = [] \<and>
   render_js (app (run_js [Settle ''chicken'' (Responds True (Json []))])) = Grid [] \<and>
   render_js (app (run_js [Settle ''chicken'' (Responds True (Json []))])) \<noteq> NoRecipesFound"
  by (simp add: js_defs)

text \<open>
  Claim C4, amended. In the TypeScript version, when the fetch of the committed
  query resolves with an empty list, the fetch status is a success with no result and
  the page shows the "No recipes found" block; in no state does the page show a grid
  without cards.
\<close>

theorem empty_success_shows_no_recipes:
  assumes "cache s (queryKey s) = Some e" and "fetching e"
  shows "fetchStatus (fst (step_ts opts s (Settled (queryKey s) (Responds True (Json []))))) =
           Success [] \<and>
         App_render (fst (step_ts opts s (Settled (queryKey s) (Responds True (Json []))))) =
           MainView NoRecipesFound (map_option render_modal (selectedRecipe s)) \<and>
         App_render t \<noteq> MainView (Grid []) m"
proof -
  define u where "u = s\<lparr>cache := (cache s)(queryKey s \<mapsto>
        e\<lparr>data := Some [], error := None, fetching := False, failureCount := 0\<rparr>)\<rparr>"
  have step_u: "fst (step_ts opts s (Settled (queryKey s) (Responds True (Json [])))) = u"
    by (simp only: step_resolved_current [OF assms] fst_conv u_def)
  have entry: "cache u (queryKey u) =
      Some (e\<lparr>data := Some [], error := None, fetching := False, failureCount := 0\<rparr>)"
    by (simp add: u_def queryKey_def)
  have "fetchStatus u = Success []"
    by (rule render_resolved(2) [OF entry]) simp_all
  moreover have "App_render u = MainView NoRecipesFound (map_option render_modal (selectedRecipe u))"
    using render_resolved(1) [OF entry, of "[]"] by simp
  moreover have "selectedRecipe u = selectedRecipe s"
    by (simp add: u_def)
  moreover have "App_render t \<noteq> MainView (Grid []) m"
    by (simp add: App_render_def useQuery_result_def split: option.splits)
  ultimately show ?thesis
    by (simp only: step_u) simp
qed

theorem empty_success_shows_no_recipes_witness:
  "cache (fst (mount_ts opts0)) (queryKey (fst (mount_ts opts0))) =
     Some \<lparr>data = None, error = None, fetching = True, failureCount = 0\<rparr> \<and>
   App_render (fst (mount_ts opts0)) = LoadingView \<and>
   App_render (fst (run_ts opts0 [Settled (''recipes'', ''chicken'') (Responds True (Json []))])) =
     MainView NoRecipesFound None"
  using empty_success_shows_no_recipes [of "fst (mount_ts opts0)"
      "\<lparr>data = None, error = None, fetching = True, failureCount = 0\<rparr>" opts0]
  by (simp add: ts_defs opts0_def)

subsection \<open>The detail modal\<close>



end
